theory Spec2Isabelle
  imports Complex_Main
begin

section \<open>Python primitives used by the application\<close>

text \<open>
  Exceptions are values. A handler of \<open>CrowdSenseApp\<close> mutates \<open>self\<close> as it runs, so an
  exceptional exit carries the state reached at the point of the raise.
\<close>

datatype error = NameError string | ValueError string

type_synonym 's result = "(error \<times> 's) + 's"

definition final_state :: "'s result \<Rightarrow> 's" where
  "final_state r = (case r of Inl (e, s) \<Rightarrow> s | Inr s \<Rightarrow> s)"

definition raised :: "'s result \<Rightarrow> error option" where
  "raised r = (case r of Inl (e, s) \<Rightarrow> Some e | Inr s \<Rightarrow> None)"

text \<open>
  \<open>collections.deque(maxlen=n)\<close>: \<open>append\<close> on a full deque drops the oldest item; with
  \<open>maxlen = 0\<close> every append is discarded.
\<close>

record deque =
  items :: "int list"
  maxlen :: nat

definition deque_new :: "nat \<Rightarrow> deque" where
  "deque_new n = \<lparr>items = [], maxlen = n\<rparr>"

definition deque_append :: "deque \<Rightarrow> int \<Rightarrow> deque" where
  "deque_append d x =
     (if maxlen d = 0 then d
      else if length (items d) = maxlen d then d\<lparr>items := tl (items d) @ [x]\<rparr>
      else d\<lparr>items := items d @ [x]\<rparr>)"

definition deque_clear :: "deque \<Rightarrow> deque" where
  "deque_clear d = d\<lparr>items := []\<rparr>"

text \<open>
  \<open>np.mean\<close> of a sequence of integer counts and Python's \<open>round\<close> with one argument
  (ties go to the even neighbour). The mean is taken in exact arithmetic: the counts are
  numbers of detection boxes of one frame and the window holds at most 60 of them, so the
  float64 quotient lies on the same side of every half-integer as the exact one.
\<close>

definition np_mean :: "int list \<Rightarrow> real" where
  "np_mean xs = real_of_int (sum_list xs) / real (length xs)"

definition py_round :: "real \<Rightarrow> int" where
  "py_round x =
     (let f = \<lfloor>x\<rfloor>; d = x - of_int f
      in if d < 1 / 2 then f
         else if 1 / 2 < d then f + 1
         else if even f then f else f + 1)"

text \<open>
  A slice \<open>xs[-value:]\<close> of a list: a negative start counts from the end (clipped at the
  front), and \<open>-0\<close> is \<open>0\<close>, so \<open>xs[-0:]\<close> is the whole list.
\<close>

definition slice_last :: "int list \<Rightarrow> int \<Rightarrow> int list" where
  "slice_last xs v =
     (if v \<le> 0 then drop (nat (- v)) xs
      else drop (length xs - nat v) xs)"

text \<open>Formatting of integers by \<open>f"{n:02d}"\<close>: decimal digits, sign first, zero padded.\<close>

function str_nat :: "nat \<Rightarrow> string" where
  "str_nat n =
     (if n < 10 then [char_of (48 + n)]
      else str_nat (n div 10) @ [char_of (48 + n mod 10)])"
  by pat_completeness auto
termination
  by (relation "measure id") auto

definition format_0d :: "nat \<Rightarrow> int \<Rightarrow> string" where
  "format_0d w n =
     (if n < 0
      then CHR ''-'' # replicate (w - 1 - length (str_nat (nat (- n)))) CHR ''0''
             @ str_nat (nat (- n))
      else replicate (w - length (str_nat (nat n))) CHR ''0'' @ str_nat (nat n))"

section \<open>Names bound at module level of app.py\<close>

text \<open>
  A bare name inside a method body is looked up in the function's locals, then in the
  module's globals (then the builtins); the body of the enclosing \<open>class\<close> statement is not
  a scope for it. The globals of \<open>app.py\<close> are the names bound by its import statements
  (with the public names of \<open>config.py\<close> through the star import) and by the one
  \<open>class\<close> statement.
\<close>

definition config_names :: "string list" where
  "config_names =
     [''DARK_BG_COLOR'', ''PANEL_BG_COLOR'', ''WIDGET_BG_COLOR'', ''DROPDOWN_BG_COLOR'',
      ''BORDER_COLOR'', ''TEXT_COLOR'', ''MUTED_TEXT_COLOR'', ''ACCENT_COLOR'',
      ''LIGHTER_ACCENT_COLOR'', ''DARKER_ACCENT_COLOR'', ''GRID_COLOR'', ''DEFAULT_FONT'',
      ''HEADER_FONT_STYLE'', ''SUBHEADER_FONT_STYLE'', ''VALUE_FONT_STYLE'',
      ''LARGE_VALUE_FONT_STYLE'', ''BUTTON_STYLE'', ''EXPORT_BUTTON_STYLE'',
      ''available_models'']"

definition app_module_names :: "string list" where
  "app_module_names =
     [''sys'', ''os'', ''cv2'', ''torch'', ''np'', ''urllib'', ''time'', ''deque'',
      ''QApplication'', ''QMainWindow'', ''QWidget'', ''QVBoxLayout'', ''QHBoxLayout'',
      ''QLabel'', ''QComboBox'', ''QPushButton'', ''QFrame'', ''QSizePolicy'',
      ''QFileDialog'', ''QProgressBar'', ''QDialog'', ''QSplitter'', ''QScrollArea'',
      ''QGridLayout'', ''QMessageBox'',
      ''Qt'', ''QTimer'', ''pyqtSlot'', ''QSize'', ''QThread'', ''pyqtSignal'', ''QRect'',
      ''QPixmap'', ''QImage'', ''QFont'', ''QDragEnterEvent'', ''QDropEvent'', ''QPainter'',
      ''pg'']
     @ config_names
     @ [''ModelDownloadThread'', ''VideoFrameThread'', ''YoloDetectionThread'',
        ''ToggleSwitch'', ''ModernBoxedSlider'', ''DragDropVideoLabel'',
        ''CrowdSenseApp'']"

text \<open>The attributes of the class body that the modelled handlers are bound to.\<close>

definition class_body_names :: "string list" where
  "class_body_names =
     [''on_crowd_detection_toggled'', ''on_crowd_size_threshold_changed'',
      ''on_smoothing_window_changed'', ''format_time_for_filename'',
      ''update_crowd_alert_status'', ''update_heatmap'', ''display_detection_results'',
      ''check_threshold_crossing'']"

definition load_global :: "string \<Rightarrow> error + unit" where
  "load_global n = (if n \<in> set app_module_names then Inr () else Inl (NameError n))"

section \<open>Application state\<close>

text \<open>
  The fields of \<open>CrowdSenseApp\<close> that the counting, alert, peak and heat-map code reads or
  writes. Widgets, style sheets and the plotted graph series are written by that code but
  never read back by it, and are left out. \<open>float('inf')\<close>, the start value of
  \<open>offpeak_count\<close>, is \<open>Infinity\<close>.
\<close>

datatype count_or_inf = Finite int | Infinity

fun less_than_count :: "int \<Rightarrow> count_or_inf \<Rightarrow> bool" where
  "less_than_count c Infinity = True"
| "less_than_count c (Finite k) = (c < k)"

record alert_record =
  timestamp :: string
  count :: int
  threshold :: int

type_synonym grid = "real list list"

record app_state =
  people_count_history :: deque
  smoothing_window_size :: int
  smoothed_people_count :: int
  video_time_ms :: int
  crowd_detection_enabled :: bool
  crowd_size_threshold :: int
  threshold_alert_active :: bool
  threshold_history :: "alert_record list"
  peak_count :: int
  peak_time_ms :: int
  offpeak_count :: count_or_inf
  offpeak_time_ms :: int
  heatmap_enabled :: bool
  heatmap_accumulator :: "grid option"
  aggregate_heatmap_accumulator :: "grid option"
  aggregate_frame_count :: int
  heatmap_decay :: real
  heatmap_intensity :: real
  heatmap_scale_factor :: real
  heatmap_neighbor_radius :: int

text \<open>The state set up by \<open>__init__\<close>.\<close>

definition init_state :: app_state where
  "init_state =
     \<lparr>people_count_history = deque_new 24,
      smoothing_window_size = 24,
      smoothed_people_count = 0,
      video_time_ms = 0,
      crowd_detection_enabled = False,
      crowd_size_threshold = 10,
      threshold_alert_active = False,
      threshold_history = [],
      peak_count = 0,
      peak_time_ms = 0,
      offpeak_count = Infinity,
      offpeak_time_ms = 0,
      heatmap_enabled = False,
      heatmap_accumulator = None,
      aggregate_heatmap_accumulator = None,
      aggregate_frame_count = 0,
      heatmap_decay = 99 / 100,
      heatmap_intensity = 6 / 10,
      heatmap_scale_factor = 2 / 10,
      heatmap_neighbor_radius = 4\<rparr>"

section \<open>Threshold alert\<close>

text \<open>\<open>format_time_for_filename\<close>, as the class body defines it.\<close>

definition format_time_for_filename :: "int \<Rightarrow> string" where
  "format_time_for_filename time_ms =
     (let total_seconds = time_ms div 1000;
          hours = total_seconds div 3600;
          minutes = (total_seconds mod 3600) div 60;
          seconds = total_seconds mod 60;
          milliseconds = time_ms mod 1000
      in format_0d 2 hours @ ''h'' @ format_0d 2 minutes @ ''m''
         @ format_0d 2 seconds @ ''s'' @ format_0d 3 milliseconds @ ''ms'')"

text \<open>
  \<open>update_crowd_alert_status(alert_active, count)\<close>. The flag is written before the
  branch; the alert branch then calls \<open>format_time_for_filename\<close> by its bare name, which
  is a lookup in the module's globals, and appends the record after that call.
\<close>

definition update_crowd_alert_status :: "bool \<Rightarrow> int \<Rightarrow> app_state \<Rightarrow> app_state result" where
  "update_crowd_alert_status alert_active cnt s =
     (if threshold_alert_active s = alert_active then Inr s
      else
        let s1 = s\<lparr>threshold_alert_active := alert_active\<rparr>
        in if alert_active then
             (case load_global ''format_time_for_filename'' of
                Inl e \<Rightarrow> Inl (e, s1)
              | Inr _ \<Rightarrow>
                  let current_time_str = format_time_for_filename (video_time_ms s1);
                      rec = \<lparr>timestamp = current_time_str, count = cnt,
                             threshold = crowd_size_threshold s1\<rparr>
                  in Inr (s1\<lparr>threshold_history := threshold_history s1 @ [rec]\<rparr>))
           else Inr s1)"

definition check_threshold_crossing :: "app_state \<Rightarrow> app_state result" where
  "check_threshold_crossing s =
     (let should_alert_be_active = (crowd_size_threshold s < smoothed_people_count s)
      in if should_alert_be_active \<noteq> threshold_alert_active s
         then update_crowd_alert_status should_alert_be_active (smoothed_people_count s) s
         else Inr s)"



section \<open>Count smoothing\<close>

text \<open>
  \<open>on_smoothing_window_changed(value)\<close>: \<open>deque(maxlen=value)\<close> raises \<open>ValueError\<close> for a
  negative \<open>value\<close>, after \<open>smoothing_window_size\<close> has been written.
\<close>

definition on_smoothing_window_changed :: "int \<Rightarrow> app_state \<Rightarrow> app_state result" where
  "on_smoothing_window_changed v s =
     (let current_history = items (people_count_history s);
          s1 = s\<lparr>smoothing_window_size := v\<rparr>
      in if v < 0 then Inl (ValueError ''maxlen must be non-negative'', s1)
         else
           let s2 = s1\<lparr>people_count_history :=
                        fold (\<lambda>c d. deque_append d c) (slice_last current_history v)
                          (deque_new (nat v))\<rparr>;
               s3 = (if 0 < length (items (people_count_history s2))
                     then s2\<lparr>smoothed_people_count :=
                               py_round (np_mean (items (people_count_history s2)))\<rparr>
                     else s2\<lparr>smoothed_people_count := 0\<rparr>)
           in if crowd_detection_enabled s3 then check_threshold_crossing s3 else Inr s3)"

text \<open>The first statements of \<open>display_detection_results\<close>: push the raw count, smooth.\<close>

definition push_count :: "int \<Rightarrow> app_state \<Rightarrow> app_state" where
  "push_count people_count s =
     (let s1 = s\<lparr>people_count_history := deque_append (people_count_history s) people_count\<rparr>;
          new_smoothed_count =
            (if 0 < length (items (people_count_history s1))
             then py_round (np_mean (items (people_count_history s1)))
             else people_count)
      in s1\<lparr>smoothed_people_count := new_smoothed_count\<rparr>)"

section \<open>Peak and off-peak tracking\<close>

text \<open>The two independent updates near the end of \<open>display_detection_results\<close>.\<close>

definition track_peaks :: "app_state \<Rightarrow> app_state" where
  "track_peaks s =
     (let s1 = (if peak_count s < smoothed_people_count s
                then s\<lparr>peak_count := smoothed_people_count s,
                       peak_time_ms := video_time_ms s\<rparr>
                else s)
      in if 0 < smoothed_people_count s1
            \<and> less_than_count (smoothed_people_count s1) (offpeak_count s1)
         then s1\<lparr>offpeak_count := Finite (smoothed_people_count s1),
                 offpeak_time_ms := video_time_ms s1\<rparr>
         else s1)"

section \<open>Heat map\<close>

text \<open>
  Grids are \<open>numpy\<close> arrays of shape \<open>(rows, columns)\<close>, row lists of cells. Cells are
  reals, the idealisation of float32 arithmetic without overflow or NaN. Of a frame only
  its shape is read. A detection box is \<open>(x1, y1, x2, y2)\<close>.
\<close>

record frame =
  shape_h :: nat
  shape_w :: nat

type_synonym box = "int \<times> int \<times> int \<times> int"

text \<open>
  The two OpenCV functions that \<open>update_heatmap\<close> calls are parameters of the model:
  \<open>GaussianBlur cv g k\<close> is \<open>cv2.GaussianBlur(g, (k, k), 0)\<close> and \<open>resize cv g w h\<close> is
  \<open>cv2.resize(g, (w, h), interpolation=cv2.INTER_LINEAR)\<close>.
\<close>

record cv2 =
  GaussianBlur :: "grid \<Rightarrow> nat \<Rightarrow> grid"
  resize :: "grid \<Rightarrow> nat \<Rightarrow> nat \<Rightarrow> grid"

text \<open>\<open>int(x)\<close> of a float truncates towards zero.\<close>

definition py_int :: "real \<Rightarrow> int" where
  "py_int x = (if 0 \<le> x then \<lfloor>x\<rfloor> else \<lceil>x\<rceil>)"

definition np_zeros :: "nat \<Rightarrow> nat \<Rightarrow> grid" where
  "np_zeros h w = replicate h (replicate w 0)"

definition grid_shape :: "grid \<Rightarrow> nat \<times> nat" where
  "grid_shape g = (length g, case g of [] \<Rightarrow> 0 | r # _ \<Rightarrow> length r)"

definition grid_map :: "(real \<Rightarrow> real) \<Rightarrow> grid \<Rightarrow> grid" where
  "grid_map f g = map (map f) g"

definition grid_add :: "grid \<Rightarrow> grid \<Rightarrow> grid" where
  "grid_add a b = map2 (map2 (+)) a b"

definition grid_get :: "grid \<Rightarrow> nat \<Rightarrow> nat \<Rightarrow> real" where
  "grid_get g y x = g ! y ! x"

definition grid_set :: "grid \<Rightarrow> nat \<Rightarrow> nat \<Rightarrow> real \<Rightarrow> grid" where
  "grid_set g y x v = g[y := (g ! y)[x := v]]"

text \<open>
  \<open>np.max\<close> of a grid. Every grid it is applied to has at least one cell
  (\<open>update_heatmap\<close> returns early unless both dimensions are positive).
\<close>

definition np_max :: "grid \<Rightarrow> real" where
  "np_max g = (case concat g of [] \<Rightarrow> 0 | x # xs \<Rightarrow> fold max xs x)"

definition low_dims :: "app_state \<Rightarrow> frame \<Rightarrow> int \<times> int" where
  "low_dims s fr =
     (py_int (real (shape_h fr) * heatmap_scale_factor s),
      py_int (real (shape_w fr) * heatmap_scale_factor s))"

text \<open>
  The allocation step: \<open>resolution_changed\<close> compares the shape of the stored live
  accumulator with the new low-resolution dimensions. The result is the live
  accumulator, the aggregate accumulator and the aggregate frame count after the step.
\<close>

definition resolution_changed :: "int \<Rightarrow> int \<Rightarrow> app_state \<Rightarrow> bool" where
  "resolution_changed low_h low_w s =
     (case heatmap_accumulator s of
        None \<Rightarrow> False
      | Some acc \<Rightarrow>
          (case grid_shape acc of
             (current_low_h, current_low_w) \<Rightarrow>
               int current_low_h \<noteq> low_h \<or> int current_low_w \<noteq> low_w))"

definition reallocate :: "int \<Rightarrow> int \<Rightarrow> app_state \<Rightarrow> grid \<times> grid \<times> int" where
  "reallocate low_h low_w s =
     (let changed = resolution_changed low_h low_w s;
          zeros = np_zeros (nat low_h) (nat low_w);
          live = (case heatmap_accumulator s of
                    None \<Rightarrow> zeros
                  | Some acc \<Rightarrow> if changed then zeros else acc)
      in case aggregate_heatmap_accumulator s of
           None \<Rightarrow> (live, zeros, 0)
         | Some agg \<Rightarrow>
             if changed then (live, zeros, 0) else (live, agg, aggregate_frame_count s))"

text \<open>One neighbour cell of a foot point, and the splat of one box.\<close>

definition splat_cell :: "int \<Rightarrow> int \<Rightarrow> int \<Rightarrow> int \<Rightarrow> int \<Rightarrow> grid \<Rightarrow> grid" where
  "splat_cell radius foot_x foot_y y x cur =
     (if x = foot_x \<and> y = foot_y then cur
      else
        let dist_sq = (x - foot_x)\<^sup>2 + (y - foot_y)\<^sup>2
        in if dist_sq \<le> radius\<^sup>2 then
             let dist = sqrt (real_of_int dist_sq);
                 intensity = max 0 (1 - dist / real_of_int radius) * (7 / 10)
             in grid_set cur (nat y) (nat x) (max (grid_get cur (nat y) (nat x)) intensity)
           else cur)"

definition add_box :: "app_state \<Rightarrow> int \<Rightarrow> int \<Rightarrow> box \<Rightarrow> grid \<Rightarrow> grid" where
  "add_box s low_h low_w b cur =
     (case b of
        (x1, y1, x2, y2) \<Rightarrow>
          let scale_factor = heatmap_scale_factor s;
              foot_x0 = py_int (real_of_int (x1 + x2) / 2 * scale_factor);
              foot_y0 = py_int (real_of_int y2 * scale_factor);
              foot_x = max 0 (min (low_w - 1) foot_x0);
              foot_y = max 0 (min (low_h - 1) foot_y0);
              cur1 = grid_set cur (nat foot_y) (nat foot_x) 1;
              radius = heatmap_neighbor_radius s;
              y_min = max 0 (foot_y - radius);
              y_max = min (low_h - 1) (foot_y + radius);
              x_min = max 0 (foot_x - radius);
              x_max = min (low_w - 1) (foot_x + radius)
          in fold (\<lambda>y g. fold (\<lambda>x g'. splat_cell radius foot_x foot_y y x g') [x_min..x_max] g)
               [y_min..y_max] cur1)"

definition current_heatmap :: "cv2 \<Rightarrow> app_state \<Rightarrow> int \<Rightarrow> int \<Rightarrow> box list \<Rightarrow> grid" where
  "current_heatmap cv s low_h low_w boxes =
     (let cur = fold (add_box s low_h low_w) boxes (np_zeros (nat low_h) (nat low_w));
          detections_in_frame = (boxes \<noteq> [])
      in if detections_in_frame then
           let blurred = GaussianBlur cv (GaussianBlur cv (GaussianBlur cv cur 7) 17) 31;
               max_val = np_max blurred
           in if 0 < max_val then grid_map (\<lambda>c. c / max_val) blurred
              else grid_map (\<lambda>c. 0) blurred
         else cur)"

definition update_heatmap ::
  "cv2 \<Rightarrow> frame option \<Rightarrow> box list \<Rightarrow> app_state \<Rightarrow> grid option \<times> app_state" where
  "update_heatmap cv fr_opt boxes s =
     (case fr_opt of
        None \<Rightarrow> (None, s)
      | Some fr \<Rightarrow>
          (case low_dims s fr of
             (low_h, low_w) \<Rightarrow>
               if low_h \<le> 0 \<or> low_w \<le> 0 then (None, s)
               else
                 (case reallocate low_h low_w s of
                    (live0, agg0, cnt0) \<Rightarrow>
                      let live1 = grid_map (\<lambda>c. c * heatmap_decay s) live0;
                          current = current_heatmap cv s low_h low_w boxes;
                          detections_in_frame = (boxes \<noteq> []);
                          live2 = grid_add live1
                                    (grid_map (\<lambda>c. c * heatmap_intensity s) current);
                          agg1 = (if detections_in_frame then grid_add agg0 current else agg0);
                          cnt1 = (if detections_in_frame then cnt0 + 1 else cnt0);
                          max_accum_val = np_max live2;
                          live3 = (if 1 < max_accum_val
                                   then grid_map (\<lambda>c. c / max_accum_val) live2
                                   else live2);
                          live4 = grid_map (\<lambda>c. max c 0) live3
                      in (Some (resize cv live4 (shape_w fr) (shape_h fr)),
                          s\<lparr>heatmap_accumulator := Some live4,
                            aggregate_heatmap_accumulator := Some agg1,
                            aggregate_frame_count := cnt1\<rparr>))))"

text \<open>
  \<open>process_frame_with_heatmap\<close> changes the state only through \<open>update_heatmap\<close>; the
  colour mapping and the alert border are drawn on a copy of the frame.
\<close>

definition process_frame_with_heatmap ::
  "cv2 \<Rightarrow> frame option \<Rightarrow> box list \<Rightarrow> app_state \<Rightarrow> app_state" where
  "process_frame_with_heatmap cv fr_opt boxes s =
     (case fr_opt of
        None \<Rightarrow> s
      | Some fr \<Rightarrow>
          if heatmap_enabled s then snd (update_heatmap cv (Some fr) boxes s) else s)"

section \<open>The detection-result handler\<close>

definition display_detection_results ::
  "cv2 \<Rightarrow> frame option \<Rightarrow> int \<Rightarrow> box list \<Rightarrow> app_state \<Rightarrow> app_state result" where
  "display_detection_results cv processed_frame people_count boxes s =
     (case processed_frame of
        None \<Rightarrow> Inr s
      | Some fr \<Rightarrow>
          let s1 = push_count people_count s;
              checked = (if crowd_detection_enabled s1 then check_threshold_crossing s1
                         else Inr s1)
          in (case checked of
                Inl err \<Rightarrow> Inl err
              | Inr s2 \<Rightarrow>
                  Inr (process_frame_with_heatmap cv (Some fr) boxes (track_peaks s2))))"

text \<open>
  A run of detection results, each delivered at a video time. An exception leaves the
  slot unhandled, which ends the run with the state reached.
\<close>

fun display_all ::
  "cv2 \<Rightarrow> (int \<times> frame option \<times> int \<times> box list) list \<Rightarrow> app_state \<Rightarrow> app_state result" where
  "display_all cv [] s = Inr s"
| "display_all cv ((t, fr, n, boxes) # rest) s =
     (case display_detection_results cv fr n boxes (s\<lparr>video_time_ms := t\<rparr>) of
        Inl err \<Rightarrow> Inl err
      | Inr s' \<Rightarrow> display_all cv rest s')"

section \<open>Detection worker\<close>

text \<open>
  \<open>YoloDetectionThread\<close>. The detector is a parameter: \<open>detect f\<close> is the list of boxes
  with their confidences that the model returns for frame \<open>f\<close>, or \<open>None\<close> when the call
  raises (the loop prints the error and goes on). \<open>in_flight\<close> is the local variable
  \<open>frame\<close> of \<open>run\<close> between the pop and the end of the pass; \<open>detection_ready\<close> is the log
  of the signals emitted. One pass of the loop is two steps, so that calls of
  \<open>add_frame\<close> from the GUI thread can fall between them; each step and each call of
  \<open>add_frame\<close> is atomic.
\<close>

type_synonym detection = "(real \<times> real \<times> real \<times> real) \<times> real"

record 'f yolo_thread =
  frame_queue :: "'f list"
  running :: bool
  model_loaded :: bool
  processing :: bool
  confidence_threshold :: real
  in_flight :: "'f option"
  detection_ready :: "('f \<times> int \<times> box list) list"

definition new_thread :: "'f yolo_thread" where
  "new_thread =
     \<lparr>frame_queue = [], running = False, model_loaded = False, processing = False,
      confidence_threshold = 4 / 10, in_flight = None, detection_ready = []\<rparr>"

definition add_frame :: "'f option \<Rightarrow> 'f yolo_thread \<Rightarrow> 'f yolo_thread" where
  "add_frame frame t =
     (case frame of
        None \<Rightarrow> t
      | Some f \<Rightarrow> if \<not> processing t then t\<lparr>frame_queue := [f]\<rparr> else t)"

definition set_confidence_threshold :: "real \<Rightarrow> 'f yolo_thread \<Rightarrow> 'f yolo_thread" where
  "set_confidence_threshold thr t = t\<lparr>confidence_threshold := thr\<rparr>"

text \<open>Entry of \<open>run\<close>: the flag is set and the model is loaded unless it already is.\<close>

definition start_run :: "bool \<Rightarrow> 'f yolo_thread \<Rightarrow> 'f yolo_thread" where
  "start_run load_ok t = t\<lparr>running := True, model_loaded := (model_loaded t \<or> load_ok)\<rparr>"

definition stop_thread :: "'f yolo_thread \<Rightarrow> 'f yolo_thread" where
  "stop_thread t = t\<lparr>running := False\<rparr>"

definition begin_pass :: "'f yolo_thread \<Rightarrow> 'f yolo_thread" where
  "begin_pass t =
     (if running t \<and> in_flight t = None \<and> 0 < length (frame_queue t) \<and> model_loaded t
      then (case frame_queue t of
              [] \<Rightarrow> t
            | f # rest \<Rightarrow> t\<lparr>processing := True, frame_queue := rest, in_flight := Some f\<rparr>)
      else t)"

definition kept_boxes :: "real \<Rightarrow> detection list \<Rightarrow> box list" where
  "kept_boxes thr dets =
     map (\<lambda>((x1, y1, x2, y2), confidence). (py_int x1, py_int y1, py_int x2, py_int y2))
       (filter (\<lambda>(b, confidence). thr < confidence) dets)"

definition finish_pass ::
  "('f \<Rightarrow> detection list option) \<Rightarrow> 'f yolo_thread \<Rightarrow> 'f yolo_thread" where
  "finish_pass detect t =
     (case in_flight t of
        None \<Rightarrow> t
      | Some f \<Rightarrow>
          let t1 = (case detect f of
                      None \<Rightarrow> t
                    | Some dets \<Rightarrow>
                        let boxes = kept_boxes (confidence_threshold t) dets
                        in t\<lparr>detection_ready :=
                               detection_ready t @ [(f, int (length boxes), boxes)]\<rparr>)
          in t1\<lparr>processing := False, in_flight := None\<rparr>)"

datatype 'f worker_event =
  StartRun bool | StopThread | Submit "'f option" | BeginPass | FinishPass

fun worker_step ::
  "('f \<Rightarrow> detection list option) \<Rightarrow> 'f worker_event \<Rightarrow> 'f yolo_thread \<Rightarrow> 'f yolo_thread" where
  "worker_step detect (StartRun ok) t = start_run ok t"
| "worker_step detect StopThread t = stop_thread t"
| "worker_step detect (Submit fr) t = add_frame fr t"
| "worker_step detect BeginPass t = begin_pass t"
| "worker_step detect FinishPass t = finish_pass detect t"

definition run_worker ::
  "('f \<Rightarrow> detection list option) \<Rightarrow> 'f worker_event list \<Rightarrow> 'f yolo_thread \<Rightarrow> 'f yolo_thread" where
  "run_worker detect evs t = fold (worker_step detect) evs t"

text \<open>
  \<open>passes k\<close> is \<open>k\<close> iterations of the worker loop with no submission in between.
  \<open>emitted detect thr f\<close> is what one pass on frame \<open>f\<close> sends on \<open>detection_ready\<close>:
  nothing when the detection raises (the \<open>except\<close> branch only prints).
\<close>

definition passes :: "nat \<Rightarrow> 'f worker_event list" where
  "passes k = concat (replicate k [BeginPass, FinishPass])"

definition emitted ::
  "('f \<Rightarrow> detection list option) \<Rightarrow> real \<Rightarrow> 'f \<Rightarrow> ('f \<times> int \<times> box list) list" where
  "emitted detect thr f =
     (case detect f of
        None \<Rightarrow> []
      | Some dets \<Rightarrow> [(f, int (length (kept_boxes thr dets)), kept_boxes thr dets)])"

section \<open>Observations of the smoothed count\<close>

text \<open>
  The reset of the peak fields done by restart, stop and load. An observation of the
  peak tracker is \<open>track_peaks\<close> run in a state whose \<open>smoothed_people_count\<close> and
  \<open>video_time_ms\<close> hold the observed count and its time.
\<close>

definition reset_peaks :: "app_state \<Rightarrow> app_state" where
  "reset_peaks s =
     s\<lparr>peak_count := 0, peak_time_ms := 0, offpeak_count := Infinity, offpeak_time_ms := 0\<rparr>"

definition observe :: "int \<times> int \<Rightarrow> app_state \<Rightarrow> app_state" where
  "observe ct s =
     track_peaks (s\<lparr>smoothed_people_count := fst ct, video_time_ms := snd ct\<rparr>)"

definition observe_all :: "(int \<times> int) list \<Rightarrow> app_state \<Rightarrow> app_state" where
  "observe_all obs s = fold observe obs s"

section \<open>Concrete inputs\<close>

text \<open>
  Stand-ins for the OpenCV functions (both return their argument), a 640x480 frame, and
  the start state with crowd detection switched on and a smoothing window of one sample,
  so that the smoothed count of a frame is its raw count.
\<close>

definition cv_plain :: cv2 where
  "cv_plain = \<lparr>GaussianBlur = (\<lambda>g k. g), resize = (\<lambda>g w h. g)\<rparr>"

definition vga_frame :: frame where
  "vga_frame = \<lparr>shape_h = 480, shape_w = 640\<rparr>"

definition alert_demo_state :: app_state where
  "alert_demo_state =
     init_state\<lparr>crowd_detection_enabled := True, people_count_history := deque_new 1,
                smoothing_window_size := 1\<rparr>"



definition four_samples_state :: app_state where
  "four_samples_state =
     init_state\<lparr>people_count_history := \<lparr>items = [2, 4, 9, 100], maxlen = 24\<rparr>\<rparr>"


section \<open>Properties of the threshold alert\<close>

lemma format_time_for_filename_unbound:
  "load_global ''format_time_for_filename'' = Inl (NameError ''format_time_for_filename'')"
  by (simp add: load_global_def app_module_names_def config_names_def)

lemma format_time_for_filename_in_class:
  "''format_time_for_filename'' \<in> set class_body_names"
  by (simp add: class_body_names_def)

lemma update_crowd_alert_status_history:
  "threshold_history (final_state (update_crowd_alert_status a c s)) = threshold_history s"
  by (simp add: update_crowd_alert_status_def final_state_def
        format_time_for_filename_unbound Let_def)

lemma update_crowd_alert_status_alert:
  "\<not> threshold_alert_active s \<Longrightarrow>
     update_crowd_alert_status True c s
       = Inl (NameError ''format_time_for_filename'', s\<lparr>threshold_alert_active := True\<rparr>)"
  by (simp add: update_crowd_alert_status_def format_time_for_filename_unbound Let_def)

lemma update_crowd_alert_status_normal:
  "update_crowd_alert_status False c s = Inr (s\<lparr>threshold_alert_active := False\<rparr>)"
  by (simp add: update_crowd_alert_status_def Let_def)

lemma check_threshold_crossing_cases:
  "check_threshold_crossing s =
     (if crowd_size_threshold s < smoothed_people_count s
      then (if threshold_alert_active s then Inr s
            else Inl (NameError ''format_time_for_filename'',
                      s\<lparr>threshold_alert_active := True\<rparr>))
      else Inr (s\<lparr>threshold_alert_active := False\<rparr>))"
  by (auto simp add: check_threshold_crossing_def update_crowd_alert_status_alert
        update_crowd_alert_status_normal Let_def)

lemma update_heatmap_history:
  "threshold_history (snd (update_heatmap cv fr boxes s)) = threshold_history s"
  by (simp add: update_heatmap_def Let_def split: option.splits prod.splits)

lemma process_frame_with_heatmap_history:
  "threshold_history (process_frame_with_heatmap cv fr boxes s) = threshold_history s"
  by (simp add: process_frame_with_heatmap_def update_heatmap_history split: option.splits)

lemma track_peaks_history: "threshold_history (track_peaks s) = threshold_history s"
  by (simp add: track_peaks_def Let_def)

lemma push_count_history: "threshold_history (push_count n s) = threshold_history s"
  by (simp add: push_count_def Let_def)

lemma display_detection_results_history:
  "threshold_history (final_state (display_detection_results cv fr n boxes s))
     = threshold_history s"
  by (simp add: display_detection_results_def Let_def final_state_def
        check_threshold_crossing_cases process_frame_with_heatmap_history
        track_peaks_history push_count_history
      split: option.splits)

lemma display_all_history:
  "threshold_history (final_state (display_all cv fs s)) = threshold_history s"
proof (induction fs arbitrary: s)
  case Nil
  then show ?case by (simp add: final_state_def)
next
  case (Cons f fs)
  obtain t fr n boxes where f: "f = (t, fr, n, boxes)"
    by (cases f) auto
  show ?case
  proof (cases "display_detection_results cv fr n boxes (s\<lparr>video_time_ms := t\<rparr>)")
    case (Inl err)
    with display_detection_results_history [of cv fr n boxes "s\<lparr>video_time_ms := t\<rparr>"]
    show ?thesis by (simp add: f)
  next
    case (Inr s')
    with display_detection_results_history [of cv fr n boxes "s\<lparr>video_time_ms := t\<rparr>"]
    have "threshold_history s' = threshold_history s" by (simp add: final_state_def)
    with Inr Cons.IH [of s'] show ?thesis by (simp add: f)
  qed
qed

lemma py_round_of_int: "py_round (of_int n) = n"
  by (simp add: py_round_def)

lemma py_round_numeral: "py_round (numeral n) = numeral n"
  using py_round_of_int [of "numeral n"] by simp

lemma py_round_zero: "py_round 0 = 0"
  using py_round_of_int [of 0] by simp

lemma np_mean_single: "np_mean [x] = of_int x"
  by (simp add: np_mean_def)

lemma alert_demo_frame1:
  "display_detection_results cv_plain (Some vga_frame) 5 []
       (alert_demo_state\<lparr>video_time_ms := 0\<rparr>)
     = Inr (alert_demo_state\<lparr>video_time_ms := 0,
              people_count_history := \<lparr>items = [5], maxlen = 1\<rparr>,
              smoothed_people_count := 5, threshold_alert_active := False,
              peak_count := 5, peak_time_ms := 0,
              offpeak_count := Finite 5, offpeak_time_ms := 0\<rparr>)"
  by (simp add: alert_demo_state_def init_state_def display_detection_results_def
        push_count_def deque_append_def deque_new_def np_mean_single py_round_numeral
        check_threshold_crossing_cases track_peaks_def process_frame_with_heatmap_def Let_def)

lemma alert_demo_frame2:
  "display_detection_results cv_plain (Some vga_frame) 12 []
     (alert_demo_state\<lparr>video_time_ms := 0,
              people_count_history := \<lparr>items = [5], maxlen = 1\<rparr>,
              smoothed_people_count := 5, threshold_alert_active := False,
              peak_count := 5, peak_time_ms := 0,
              offpeak_count := Finite 5, offpeak_time_ms := 0, video_time_ms := 33\<rparr>)
     = Inl (NameError ''format_time_for_filename'',
            alert_demo_state\<lparr>video_time_ms := 33,
              people_count_history := \<lparr>items = [12], maxlen = 1\<rparr>,
              smoothed_people_count := 12, threshold_alert_active := True,
              peak_count := 5, peak_time_ms := 0,
              offpeak_count := Finite 5, offpeak_time_ms := 0\<rparr>)"
  by (simp add: alert_demo_state_def init_state_def display_detection_results_def
        push_count_def deque_append_def deque_new_def np_mean_single py_round_numeral
        check_threshold_crossing_cases track_peaks_def process_frame_with_heatmap_def Let_def)

lemma alert_demo_run:
  "display_all cv_plain
      [(0, Some vga_frame, 5, []), (33, Some vga_frame, 12, []), (66, Some vga_frame, 15, []),
       (99, Some vga_frame, 8, []), (132, Some vga_frame, 20, [])] alert_demo_state
   = Inl (NameError ''format_time_for_filename'',
            alert_demo_state\<lparr>video_time_ms := 33,
              people_count_history := \<lparr>items = [12], maxlen = 1\<rparr>,
              smoothed_people_count := 12, threshold_alert_active := True,
              peak_count := 5, peak_time_ms := 0,
              offpeak_count := Finite 5, offpeak_time_ms := 0\<rparr>)"
  by (simp only: display_all.simps alert_demo_frame1 alert_demo_frame2 sum.case)

text \<open>
  Claim C1 (edge-triggered alert, one record per Normal-to-Alert transition). The code
  does not do this. With threshold 10 and the smoothed counts 5, 12, 15, 8, 20 the run
  ends at the count 12, the first Normal-to-Alert transition, with a \<open>NameError\<close>, and the
  alert history is empty where the claim has two records.
\<close>

theorem edge_trigger_run_raises:
  "raised (display_all cv_plain
      [(0, Some vga_frame, 5, []), (33, Some vga_frame, 12, []), (66, Some vga_frame, 15, []),
       (99, Some vga_frame, 8, []), (132, Some vga_frame, 20, [])] alert_demo_state)
     = Some (NameError ''format_time_for_filename'')
   \<and> threshold_history (final_state (display_all cv_plain
      [(0, Some vga_frame, 5, []), (33, Some vga_frame, 12, []), (66, Some vga_frame, 15, []),
       (99, Some vga_frame, 8, []), (132, Some vga_frame, 20, [])] alert_demo_state)) = []"
  unfolding alert_demo_run
  by (simp add: raised_def final_state_def alert_demo_state_def init_state_def)

text \<open>
  Claim C2 (implicit). \<open>format_time_for_filename\<close> is bound in the class body and not at
  module level, so on every Normal-to-Alert transition \<open>update_crowd_alert_status\<close>, and
  with it \<open>check_threshold_crossing\<close>, raises \<open>NameError\<close> after the flag has been set and
  before the record is appended; no call of the alert code and no run of detection
  results changes the alert history.
\<close>

theorem alert_transition_raises_name_error:
  "''format_time_for_filename'' \<in> set class_body_names
   \<and> ''format_time_for_filename'' \<notin> set app_module_names
   \<and> (\<not> threshold_alert_active s \<longrightarrow>
        update_crowd_alert_status True c s
          = Inl (NameError ''format_time_for_filename'', s\<lparr>threshold_alert_active := True\<rparr>))
   \<and> (\<not> threshold_alert_active s \<and> crowd_size_threshold s < smoothed_people_count s \<longrightarrow>
        check_threshold_crossing s
          = Inl (NameError ''format_time_for_filename'', s\<lparr>threshold_alert_active := True\<rparr>))
   \<and> threshold_history (final_state (update_crowd_alert_status a c s)) = threshold_history s
   \<and> threshold_history (final_state (check_threshold_crossing s)) = threshold_history s
   \<and> threshold_history (final_state (display_all cv fs s)) = threshold_history s"
proof -
  have unbound: "''format_time_for_filename'' \<notin> set app_module_names"
    by (simp add: app_module_names_def config_names_def)
  have hist: "threshold_history (final_state (check_threshold_crossing s)) = threshold_history s"
    by (simp add: check_threshold_crossing_cases final_state_def)
  show ?thesis
    using unbound hist
    by (simp add: format_time_for_filename_in_class update_crowd_alert_status_alert
          update_crowd_alert_status_history check_threshold_crossing_cases display_all_history)
qed

theorem alert_transition_raises_name_error_witness:
  "\<not> threshold_alert_active (init_state\<lparr>smoothed_people_count := 12\<rparr>)
   \<and> crowd_size_threshold (init_state\<lparr>smoothed_people_count := 12\<rparr>)
       < smoothed_people_count (init_state\<lparr>smoothed_people_count := 12\<rparr>)
   \<and> update_crowd_alert_status True 12 (init_state\<lparr>smoothed_people_count := 12\<rparr>)
       = Inl (NameError ''format_time_for_filename'',
              init_state\<lparr>smoothed_people_count := 12, threshold_alert_active := True\<rparr>)
   \<and> check_threshold_crossing (init_state\<lparr>smoothed_people_count := 12\<rparr>)
       = Inl (NameError ''format_time_for_filename'',
              init_state\<lparr>smoothed_people_count := 12, threshold_alert_active := True\<rparr>)"
  using alert_transition_raises_name_error
    [of "init_state\<lparr>smoothed_people_count := 12\<rparr>" 12 True cv_plain "[]"]
  by (simp add: init_state_def)

section \<open>Settings handlers\<close>



section \<open>Properties of the smoothing window\<close>

lemma deque_append_maxlen: "maxlen (deque_append d x) = maxlen d"
  by (simp add: deque_append_def)

lemma deque_append_items:
  "0 < maxlen d \<Longrightarrow> length (items d) \<le> maxlen d \<Longrightarrow>
     items (deque_append d x) = drop (length (items d) + 1 - maxlen d) (items d @ [x])"
  by (cases "items d") (auto simp add: deque_append_def)

lemma fold_deque_append_maxlen:
  "maxlen (fold (\<lambda>c d. deque_append d c) xs d) = maxlen d"
  by (induction xs arbitrary: d) (simp_all add: deque_append_maxlen)

lemma fold_deque_append_items:
  "0 < maxlen d \<Longrightarrow> length (items d) \<le> maxlen d \<Longrightarrow>
     items (fold (\<lambda>c d. deque_append d c) xs d)
       = drop (length (items d) + length xs - maxlen d) (items d @ xs)"
proof (induction xs arbitrary: d)
  case Nil
  then show ?case by simp
next
  case (Cons x xs)
  let ?d = "deque_append d x"
  have m: "maxlen ?d = maxlen d" by (simp add: deque_append_maxlen)
  have it: "items ?d = drop (length (items d) + 1 - maxlen d) (items d @ [x])"
    using Cons.prems by (rule deque_append_items)
  have len: "length (items ?d) \<le> maxlen ?d"
    using Cons.prems by (simp add: it m)
  have "items (fold (\<lambda>c d. deque_append d c) xs ?d)
          = drop (length (items ?d) + length xs - maxlen ?d) (items ?d @ xs)"
    using Cons.IH [of ?d] Cons.prems len by (simp add: m)
  also have "\<dots> = drop (length (items d) + length (x # xs) - maxlen d) (items d @ x # xs)"
  proof (cases "length (items d) < maxlen d")
    case True
    then show ?thesis by (simp add: it m)
  next
    case False
    with Cons.prems have eq: "length (items d) = maxlen d" by simp
    then obtain y ys where ys: "items d = y # ys"
      using Cons.prems by (cases "items d") auto
    show ?thesis using eq Cons.prems by (simp add: it m ys)
  qed
  finally show ?case by simp
qed

lemma fold_deque_append_zero:
  "maxlen d = 0 \<Longrightarrow> fold (\<lambda>c d. deque_append d c) xs d = d"
  by (induction xs) (simp_all add: deque_append_def)

lemma check_threshold_crossing_smoothing:
  "people_count_history (final_state (check_threshold_crossing s)) = people_count_history s
   \<and> smoothed_people_count (final_state (check_threshold_crossing s)) = smoothed_people_count s"
  by (simp add: check_threshold_crossing_cases final_state_def)

lemma slice_last_nonneg: "0 \<le> v \<Longrightarrow> slice_last xs v = (if v = 0 then xs else drop (length xs - nat v) xs)"
  by (simp add: slice_last_def)

lemma resize_history:
  assumes "0 \<le> v"
  shows "items (fold (\<lambda>c d. deque_append d c) (slice_last h v) (deque_new (nat v)))
           = drop (length h - nat v) h"
    and "maxlen (fold (\<lambda>c d. deque_append d c) (slice_last h v) (deque_new (nat v))) = nat v"
proof -
  show "maxlen (fold (\<lambda>c d. deque_append d c) (slice_last h v) (deque_new (nat v))) = nat v"
    by (simp add: fold_deque_append_maxlen deque_new_def)
  show "items (fold (\<lambda>c d. deque_append d c) (slice_last h v) (deque_new (nat v)))
           = drop (length h - nat v) h"
  proof (cases "v = 0")
    case True
    then show ?thesis
      by (simp add: fold_deque_append_zero deque_new_def)
  next
    case False
    with assms have pos: "0 < nat v" by simp
    have sl: "slice_last h v = drop (length h - nat v) h"
      using assms False by (simp add: slice_last_nonneg)
    have "items (fold (\<lambda>c d. deque_append d c) (drop (length h - nat v) h) (deque_new (nat v)))
            = drop (length (drop (length h - nat v) h) - nat v) (drop (length h - nat v) h)"
      using fold_deque_append_items [of "deque_new (nat v)" "drop (length h - nat v) h"] pos
      by (simp add: deque_new_def)
    also have "\<dots> = drop (length h - nat v) h" by simp
    finally show ?thesis by (simp add: sl)
  qed
qed

lemma final_state_Inr: "final_state (Inr s) = s"
  by (simp add: final_state_def)

lemma final_state_Inl: "final_state (Inl (e, s)) = s"
  by (simp add: final_state_def)

lemma maybe_check_smoothing:
  "people_count_history (final_state (if b then check_threshold_crossing s' else Inr s'))
     = people_count_history s'
   \<and> smoothed_people_count (final_state (if b then check_threshold_crossing s' else Inr s'))
     = smoothed_people_count s'"
  by (simp add: check_threshold_crossing_smoothing final_state_Inr)


lemma mean_4_9_100: "py_round (np_mean [4, 9, 100]) = 38"
  by (simp add: np_mean_def py_round_def)

text \<open>
  Claim C10. For a new capacity \<open>v \<ge> 0\<close>, \<open>on_smoothing_window_changed\<close> keeps the most
  recent \<open>v\<close> samples (all of them if there are fewer), gives the window the capacity \<open>v\<close>
  and sets the smoothed count to the rounded mean of the samples kept, or to 0 when none
  is kept. This holds also when the re-check of the threshold that follows raises.
\<close>

theorem smoothing_window_resize:
  assumes "0 \<le> v"
  shows "items (people_count_history (final_state (on_smoothing_window_changed v s)))
           = drop (length (items (people_count_history s)) - nat v) (items (people_count_history s))
       \<and> maxlen (people_count_history (final_state (on_smoothing_window_changed v s))) = nat v
       \<and> smoothed_people_count (final_state (on_smoothing_window_changed v s))
           = (if drop (length (items (people_count_history s)) - nat v)
                   (items (people_count_history s)) = [] then 0
              else py_round (np_mean (drop (length (items (people_count_history s)) - nat v)
                                       (items (people_count_history s)))))"
proof -
  define h where "h = items (people_count_history s)"
  define d where "d = fold (\<lambda>c d. deque_append d c) (slice_last h v) (deque_new (nat v))"
  define kept where "kept = drop (length h - nat v) h"
  define n where "n = (if kept = [] then 0 else py_round (np_mean kept))"
  define s3 where "s3 = s\<lparr>smoothing_window_size := v, people_count_history := d,
                           smoothed_people_count := n\<rparr>"
  have it: "items d = kept" and ml: "maxlen d = nat v"
    using resize_history [OF assms, of h] by (simp_all add: d_def kept_def)
  have run: "on_smoothing_window_changed v s
               = (if crowd_detection_enabled s3 then check_threshold_crossing s3 else Inr s3)"
    using assms it
    by (simp add: on_smoothing_window_changed_def Let_def s3_def n_def d_def [symmetric]
          h_def [symmetric])
  have "people_count_history (final_state (on_smoothing_window_changed v s)) = d"
    and "smoothed_people_count (final_state (on_smoothing_window_changed v s)) = n"
    using maybe_check_smoothing [of "crowd_detection_enabled s3" s3]
    unfolding run by (simp_all add: s3_def)
  then show ?thesis
    using it ml by (simp add: n_def kept_def h_def)
qed

theorem smoothing_window_resize_witness:
  "(0::int) \<le> 3
   \<and> items (people_count_history (final_state (on_smoothing_window_changed 3 four_samples_state)))
       = [4, 9, 100]
   \<and> maxlen (people_count_history (final_state (on_smoothing_window_changed 3 four_samples_state)))
       = 3
   \<and> smoothed_people_count (final_state (on_smoothing_window_changed 3 four_samples_state)) = 38"
  using smoothing_window_resize [of 3 four_samples_state]
  by (simp add: four_samples_state_def init_state_def mean_4_9_100)











section \<open>Properties of the peak tracker\<close>

lemma observe_peak_count:
  "peak_count (observe (c, t) s) = max c (peak_count s)"
  by (simp add: observe_def track_peaks_def Let_def)

lemma observe_peak_time:
  "peak_time_ms (observe (c, t) s) = (if peak_count s < c then t else peak_time_ms s)"
  by (simp add: observe_def track_peaks_def Let_def)

lemma observe_offpeak_count:
  "offpeak_count (observe (c, t) s)
     = (if 0 < c \<and> less_than_count c (offpeak_count s) then Finite c else offpeak_count s)"
  by (auto simp add: observe_def track_peaks_def Let_def)

lemma observe_all_Cons: "observe_all (x # obs) s = observe_all obs (observe x s)"
  by (simp add: observe_all_def)

lemma observe_all_peak_count:
  "peak_count (observe_all obs s) = fold max (map fst obs) (peak_count s)"
proof (induction obs arbitrary: s)
  case Nil
  then show ?case by (simp add: observe_all_def)
next
  case (Cons x obs)
  obtain c t where x: "x = (c, t)" by (cases x)
  show ?case by (simp add: observe_all_Cons Cons.IH x observe_peak_count)
qed

lemma fold_max_ge: "(p::int) \<le> fold max cs p"
proof (induction cs arbitrary: p)
  case Nil
  then show ?case by simp
next
  case (Cons c cs)
  have "p \<le> max c p" by simp
  also have "\<dots> \<le> fold max cs (max c p)" by (rule Cons.IH)
  finally show ?case by simp
qed

lemma observe_all_peak_time:
  "(peak_count s < peak_count (observe_all obs s) \<longrightarrow>
      map_of obs (peak_count (observe_all obs s)) = Some (peak_time_ms (observe_all obs s)))
   \<and> (\<not> peak_count s < peak_count (observe_all obs s) \<longrightarrow>
      peak_time_ms (observe_all obs s) = peak_time_ms s)"
proof (induction obs arbitrary: s)
  case Nil
  then show ?case by (simp add: observe_all_def)
next
  case (Cons x obs)
  obtain c t where x: "x = (c, t)" by (cases x)
  define s1 where "s1 = observe (c, t) s"
  define M where "M = peak_count (observe_all obs s1)"
  have p1: "peak_count s1 = max c (peak_count s)"
    by (simp add: s1_def observe_peak_count)
  have t1: "peak_time_ms s1 = (if peak_count s < c then t else peak_time_ms s)"
    by (simp add: s1_def observe_peak_time)
  have ge: "peak_count s1 \<le> M"
    unfolding M_def observe_all_peak_count by (rule fold_max_ge)
  have run: "observe_all (x # obs) s = observe_all obs s1"
    by (simp add: observe_all_Cons x s1_def)
  have IH1: "peak_count s1 < M \<Longrightarrow> map_of obs M = Some (peak_time_ms (observe_all obs s1))"
    and IH2: "\<not> peak_count s1 < M \<Longrightarrow> peak_time_ms (observe_all obs s1) = peak_time_ms s1"
    using Cons.IH [of s1] by (simp_all add: M_def)
  show ?case
  proof (cases "peak_count s1 < M")
    case True
    then have "c \<noteq> M" and "peak_count s < M" using p1 by auto
    with True IH1 show ?thesis unfolding run M_def [symmetric] by (simp add: x)
  next
    case False
    with ge have eq: "M = peak_count s1" by simp
    show ?thesis using IH2 [OF False] p1 t1 unfolding run M_def [symmetric]
      by (auto simp add: x eq)
  qed
qed

lemma observe_all_offpeak_count:
  "offpeak_count (observe_all obs s)
     = (case offpeak_count s of
          Finite k \<Rightarrow> Finite (fold min (filter (\<lambda>c. 0 < c) (map fst obs)) k)
        | Infinity \<Rightarrow>
            (case filter (\<lambda>c. 0 < c) (map fst obs) of
               [] \<Rightarrow> Infinity
             | p # ps \<Rightarrow> Finite (fold min ps p)))"
proof (induction obs arbitrary: s)
  case Nil
  then show ?case by (simp add: observe_all_def split: count_or_inf.splits)
next
  case (Cons x obs)
  obtain c t where x: "x = (c, t)" by (cases x)
  show ?case
    by (cases "offpeak_count s")
       (auto simp add: observe_all_Cons Cons.IH x observe_offpeak_count min_def)
qed

text \<open>
  Claim C4 (amended). After a reset of the peak fields and any sequence of observations
  \<open>(count, time)\<close> of the smoothed count: \<open>peak_count\<close> is the largest of 0 and the
  observed counts; when it is positive, \<open>peak_time_ms\<close> is the time of the first
  observation that attained it; when no positive count was observed, \<open>peak_time_ms\<close>
  keeps its reset value 0, whatever the times of the observations; \<open>offpeak_count\<close> is
  the smallest strictly positive observed count, and infinity when there was none.
\<close>

theorem peak_tracking_after_reset:
  "peak_count (observe_all obs (reset_peaks s)) = Max (set (0 # map fst obs))
   \<and> (0 < peak_count (observe_all obs (reset_peaks s)) \<longrightarrow>
        map_of obs (peak_count (observe_all obs (reset_peaks s)))
          = Some (peak_time_ms (observe_all obs (reset_peaks s))))
   \<and> (\<not> 0 < peak_count (observe_all obs (reset_peaks s)) \<longrightarrow>
        peak_time_ms (observe_all obs (reset_peaks s)) = 0)
   \<and> offpeak_count (observe_all obs (reset_peaks s))
       = (if filter (\<lambda>c. 0 < c) (map fst obs) = [] then Infinity
          else Finite (Min (set (filter (\<lambda>c. 0 < c) (map fst obs)))))"
proof -
  have r: "peak_count (reset_peaks s) = 0" "peak_time_ms (reset_peaks s) = 0"
    "offpeak_count (reset_peaks s) = Infinity"
    by (simp_all add: reset_peaks_def)
  have a: "peak_count (observe_all obs (reset_peaks s)) = Max (set (0 # map fst obs))"
    by (simp only: observe_all_peak_count r Max.set_eq_fold)
  have b: "offpeak_count (observe_all obs (reset_peaks s))
       = (if filter (\<lambda>c. 0 < c) (map fst obs) = [] then Infinity
          else Finite (Min (set (filter (\<lambda>c. 0 < c) (map fst obs)))))"
  proof (cases "filter (\<lambda>c. 0 < c) (map fst obs)")
    case Nil
    then show ?thesis by (simp add: observe_all_offpeak_count r)
  next
    case (Cons p ps)
    have "Min (set (p # ps)) = fold min ps p" by (rule Min.set_eq_fold)
    then show ?thesis by (simp add: observe_all_offpeak_count r Cons)
  qed
  show ?thesis
    using a b observe_all_peak_time [of "reset_peaks s" obs] by (simp add: r)
qed

text \<open>
  Claim C4 as stated fails on a single observation of count 0 at 33 ms: the maximum of
  the observed counts is 0 and is first attained at 33 ms, but \<open>peak_time_ms\<close> is not 33
  (it is still the reset value 0), because the update is guarded by a strict comparison
  with the reset value 0 of \<open>peak_count\<close>.
\<close>

theorem peak_time_not_first_maximum:
  "peak_count (observe_all [(0, 33)] (reset_peaks init_state)) = Max (set [0])
   \<and> map_of [(0::int, 33::int)] 0 = Some 33
   \<and> peak_time_ms (observe_all [(0, 33)] (reset_peaks init_state)) \<noteq> 33"
  by (simp add: observe_all_def observe_def track_peaks_def reset_peaks_def init_state_def Let_def)

theorem peak_tracking_after_reset_witness:
  "0 < peak_count (observe_all [(3, 10), (7, 20), (7, 30), (2, 40), (0, 50)] (reset_peaks init_state))
   \<and> peak_count (observe_all [(3, 10), (7, 20), (7, 30), (2, 40), (0, 50)] (reset_peaks init_state)) = 7
   \<and> peak_time_ms (observe_all [(3, 10), (7, 20), (7, 30), (2, 40), (0, 50)] (reset_peaks init_state)) = 20
   \<and> offpeak_count (observe_all [(3, 10), (7, 20), (7, 30), (2, 40), (0, 50)] (reset_peaks init_state)) = Finite 2"
  using peak_tracking_after_reset [of "[(3, 10), (7, 20), (7, 30), (2, 40), (0, 50)]" init_state]
  by clarsimp

end
